theory Spec2Isabelle
  imports Complex_Main
begin

section \<open>Undo / redo of drawings (\<open>cq-undo\<close>)\<close>

text \<open>
  The \<open>cq-undo\<close> component keeps two JavaScript arrays, \<open>undostack\<close> and
  \<open>redostack\<close>, of entries \<open>{context, drawings}\<close>.  An array is a list whose last
  element is the top: \<open>push\<close> appends, \<open>pop\<close> removes the last element.  A context is
  an object reference, modelled as an identifier into a store \<open>charts\<close> that holds the chart
  engine (\<open>context.stx\<close>) of each context.
\<close>

record 'd stx =
  activeDrawing :: bool
  drawingObjects :: "'d list"

record 'd undo_state =
  undostack :: "(nat \<times> 'd list) list"
  redostack :: "(nat \<times> 'd list) list"
  contexts :: "nat list"
  charts :: "nat \<Rightarrow> 'd stx"
  undoActive :: bool
  redoButton :: bool
  redoActive :: bool

text \<open>
  Modelled from the spec: \<open>CIQ.shallowClone\<close> belongs to the chart library, which is not
  part of the sources.  It returns a fresh array holding the same elements; lists are values,
  so the copy is the list itself ("equal up to shallow cloning").
\<close>

definition shallowClone :: "'d list \<Rightarrow> 'd list" where
  "shallowClone ds = ds"

text \<open>\<open>Undo.prototype.setButtonStyle\<close>: the \<open>cq-active\<close> attribute of the two buttons.\<close>

definition setButtonStyle :: "'d undo_state \<Rightarrow> 'd undo_state" where
  "setButtonStyle s =
     (let s1 = s\<lparr>undoActive := (undostack s \<noteq> [])\<rparr>
      in if redoButton s1 then s1\<lparr>redoActive := (redostack s1 \<noteq> [])\<rparr> else s1)"

text \<open>\<open>Undo.prototype.handleEvent(context, type, data)\<close>, with \<open>before = data.before\<close>.\<close>

definition handleEvent :: "nat \<Rightarrow> 'd list \<Rightarrow> 'd undo_state \<Rightarrow> 'd undo_state" where
  "handleEvent context before s =
     setButtonStyle (s\<lparr>undostack := undostack s @ [(context, before)], redostack := []\<rparr>)"

text \<open>
  The first loop of \<open>Undo.prototype.undo\<close>: every context whose chart has a drawing in
  progress gets \<open>stx.undo()\<close>.  That method is the chart engine's, so it is the parameter
  \<open>stx_undo\<close>.  The result carries the flag \<open>foundOne\<close>.
\<close>

fun killActiveDrawings ::
  "('d stx \<Rightarrow> 'd stx) \<Rightarrow> nat list \<Rightarrow> (nat \<Rightarrow> 'd stx) \<Rightarrow> bool \<Rightarrow> (nat \<Rightarrow> 'd stx) \<times> bool" where
  "killActiveDrawings stx_undo [] ch foundOne = (ch, foundOne)"
| "killActiveDrawings stx_undo (c # cs) ch foundOne =
     (if activeDrawing (ch c)
      then killActiveDrawings stx_undo cs (ch(c := stx_undo (ch c))) True
      else killActiveDrawings stx_undo cs ch foundOne)"

text \<open>
  \<open>Undo.prototype.undo\<close>.  The calls \<open>changeOccurred('vector')\<close> and \<open>draw()\<close> notify and
  repaint; they are the chart engine's and leave the fields modelled here alone.
\<close>

definition undo :: "('d stx \<Rightarrow> 'd stx) \<Rightarrow> 'd undo_state \<Rightarrow> 'd undo_state" where
  "undo stx_undo s =
     (case killActiveDrawings stx_undo (contexts s) (charts s) False of
        (ch, foundOne) \<Rightarrow>
          if foundOne then s\<lparr>charts := ch\<rparr>
          else if undostack s = [] then setButtonStyle s
          else
            (let (context, drawings) = last (undostack s);
                 chart = charts s context
             in setButtonStyle
                  (s\<lparr>undostack := butlast (undostack s),
                     redostack := redostack s @ [(context, shallowClone (drawingObjects chart))],
                     charts := (charts s)(context := chart\<lparr>drawingObjects := shallowClone drawings\<rparr>)\<rparr>)))"

text \<open>\<open>Undo.prototype.redo\<close>.\<close>

definition redo :: "'d undo_state \<Rightarrow> 'd undo_state" where
  "redo s =
     (if redostack s = [] then setButtonStyle s
      else
        (let (context, drawings) = last (redostack s);
             chart = charts s context
         in setButtonStyle
              (s\<lparr>redostack := butlast (redostack s),
                 undostack := undostack s @ [(context, shallowClone (drawingObjects chart))],
                 charts := (charts s)(context := chart\<lparr>drawingObjects := shallowClone drawings\<rparr>)\<rparr>)))"

text \<open>A state with one undo entry, one chart and no drawing in progress.\<close>

definition ex_undo :: "nat undo_state" where
  "ex_undo =
     \<lparr>undostack = [(0, [1, 2])], redostack = [], contexts = [0],
      charts = (\<lambda>_. \<lparr>activeDrawing = False, drawingObjects = [3]\<rparr>),
      undoActive = True, redoButton = True, redoActive = False\<rparr>"

section \<open>Scrollable lists (\<open>cq-scroll\<close>)\<close>

text \<open>
  A routed key is either a key code (a number) or a key name (a string).  An exception
  thrown by the JavaScript is a value of \<open>js_error\<close>.
\<close>

datatype key = KeyCode nat | KeyName string

datatype js_error = TypeError

text \<open>
  A \<open>cq-item\<close> inside the scroller: its identity, its layout box, whether it carries the
  attribute \<open>cq-focused\<close>, and whether a \<open>selectFC\<close> callback is attached to it.
\<close>

record item =
  iid :: nat
  offsetTop :: int
  itemHeight :: int
  cq_focused :: bool
  selectFC :: bool

text \<open>
  The scroller: \<open>trulyvisible\<close> is what \<open>node.is(':trulyvisible')\<close> reports, \<open>items\<close> is
  \<open>node.find('cq-item')\<close> in document order, \<open>updates\<close> counts the calls of
  \<open>perfectScrollbar('update')\<close> and \<open>selected\<close> logs the items whose \<open>selectFC\<close> ran.
\<close>

record scroll =
  trulyvisible :: bool
  items :: "item list"
  scrollTop :: int
  clientHeight :: int
  perfectScrollbar :: bool
  updates :: nat
  selected :: "nat list"

text \<open>\<open>items[i]\<close> of a jQuery collection: \<open>undefined\<close> (here \<open>None\<close>) out of range.\<close>

definition item_at :: "item list \<Rightarrow> int \<Rightarrow> item option" where
  "item_at xs i = (if 0 \<le> i \<and> i < int (length xs) then Some (xs ! nat i) else None)"

text \<open>\<open>$(items[i]).attr('cq-focused', 'true')\<close>: nothing happens on \<open>undefined\<close>.\<close>

definition focus_at :: "item list \<Rightarrow> int \<Rightarrow> item list" where
  "focus_at xs i =
     (if 0 \<le> i \<and> i < int (length xs) then xs[nat i := (xs ! nat i)\<lparr>cq_focused := True\<rparr>] else xs)"

text \<open>
  \<open>Scroll.prototype.scrollToElement(item)\<close>.  Reading \<open>item.offsetTop\<close> of \<open>undefined\<close>
  throws a \<open>TypeError\<close>.
\<close>

definition scrollToElement :: "item option \<Rightarrow> scroll \<Rightarrow> js_error + scroll" where
  "scrollToElement item s =
     (case item of
        None \<Rightarrow> Inl TypeError
      | Some it \<Rightarrow>
          (let bottom = clientHeight s;
               scrolled = scrollTop s;
               itemBottom = offsetTop it + itemHeight it
           in if offsetTop it > scrolled \<and> itemBottom < bottom + scrolled then Inr s
              else
                (let s1 = s\<lparr>scrollTop := max (itemBottom - bottom) 0\<rparr>
                 in Inr (if perfectScrollbar s1 then s1\<lparr>updates := Suc (updates s1)\<rparr> else s1))))"

text \<open>
  The loop \<open>for (i = 0; i < items.length; i++) if (items[i] === focused[0]) break\<close>; the
  comparison is one of identity.
\<close>

fun locate :: "item list \<Rightarrow> nat \<Rightarrow> int \<Rightarrow> int" where
  "locate [] f i = i"
| "locate (x # xs) f i = (if iid x = f then i else locate xs f (i + 1))"

text \<open>\<open>Scroll.prototype.keyStroke(hub, key, e)\<close>.\<close>

definition Scroll_keyStroke :: "key \<Rightarrow> scroll \<Rightarrow> js_error + (bool \<times> scroll)" where
  "Scroll_keyStroke key s =
     (if \<not> trulyvisible s then Inr (False, s)
      else if key \<noteq> KeyName ''up'' \<and> key \<noteq> KeyName ''down'' \<and> key \<noteq> KeyName ''enter''
              \<and> key \<noteq> KeyCode 32 then Inr (False, s)
      else
        (let focused = filter cq_focused (items s)
         in if key = KeyCode 32 \<or> key = KeyName ''enter'' then
              (case focused of
                 [] \<Rightarrow> Inr (False, s)
               | f # _ \<Rightarrow>
                   if selectFC f then Inr (True, s\<lparr>selected := selected s @ [iid f]\<rparr>)
                   else Inr (False, s))
            else if focused = [] then
              (let s1 = s\<lparr>items := focus_at (items s) 0\<rparr>
               in case scrollToElement (item_at (items s1) 0) s1 of
                    Inl e \<Rightarrow> Inl e
                  | Inr s2 \<Rightarrow> Inr (True, s2))
            else
              (let s1 = s\<lparr>items := map (\<lambda>it. it\<lparr>cq_focused := False\<rparr>) (items s)\<rparr>;
                   i = locate (items s1) (iid (hd focused)) 0;
                   i1 = (if key = KeyName ''up'' then (if i - 1 < 0 then 0 else i - 1) else i);
                   i2 = (if key = KeyName ''down''
                         then (if i1 + 1 \<ge> int (length (items s1)) then int (length (items s1)) - 1
                               else i1 + 1)
                         else i1);
                   s2 = s1\<lparr>items := focus_at (items s1) i2\<rparr>
               in case scrollToElement (item_at (items s2) i2) s2 of
                    Inl e \<Rightarrow> Inl e
                  | Inr s3 \<Rightarrow> Inr (True, s3))))"

text \<open>A visible scroller with no items, and one with two items, the first focused.\<close>

definition empty_scroll :: scroll where
  "empty_scroll =
     \<lparr>trulyvisible = True, items = [], scrollTop = 0, clientHeight = 100,
      perfectScrollbar = False, updates = 0, selected = []\<rparr>"

definition two_items :: scroll where
  "two_items =
     \<lparr>trulyvisible = True,
      items = [\<lparr>iid = 1, offsetTop = 0, itemHeight = 20, cq_focused = True, selectFC = True\<rparr>,
               \<lparr>iid = 2, offsetTop = 20, itemHeight = 20, cq_focused = False, selectFC = True\<rparr>],
      scrollTop = 0, clientHeight = 100, perfectScrollbar = False, updates = 0, selected = []\<rparr>"

section \<open>Placing a dialog (\<open>cq-dialog\<close>)\<close>

text \<open>
  Pixel quantities are JavaScript numbers; they are modelled as rationals, so that the halves
  and thirds of \<open>center\<close> are exact.  \<open>geometry\<close> holds what the browser reports when the
  dialog is placed: the width and height of the containing region (\<open>guaranteedWidth\<close>,
  \<open>guaranteedHeight\<close> of the parent, or of the window when the parent is \<open>BODY\<close>) and the
  outer width and height of the dialog.
\<close>

record geometry =
  parentWidth :: rat
  parentHeight :: rat
  outerWidth :: rat
  outerHeight :: rat

text \<open>
  The parameters of \<open>show\<close>: the screen coordinates \<open>x\<close>, \<open>y\<close> of a context menu (given
  together, from \<open>pageX\<close> and \<open>pageY\<close> of an event) and \<open>bypassOverlay\<close>.
\<close>

record params =
  coords :: "(rat \<times> rat) option"
  bypassOverlay :: bool

definition no_params :: params where
  "no_params = \<lparr>coords = None, bypassOverlay = False\<rparr>"

text \<open>\<open>Dialog.prototype.stxContextMenu\<close>; the result is the pair \<open>(top, left)\<close> given to \<open>css\<close>.\<close>

definition stxContextMenu :: "rat \<Rightarrow> rat \<Rightarrow> geometry \<Rightarrow> rat \<times> rat" where
  "stxContextMenu x y g =
     (let w = parentWidth g; h = parentHeight g; cw = outerWidth g; ch = outerHeight g;
          left = x;
          top = y;
          left = (if left + cw > w then w - cw else left);
          top = (if top + ch > h then top - ch else top);
          top = (if top < 0 then 0 else top)
      in (top, left))"

text \<open>\<open>Dialog.prototype.center\<close>.\<close>

definition center :: "geometry \<Rightarrow> rat \<times> rat" where
  "center g =
     (let w = parentWidth g; h = parentHeight g; cw = outerWidth g; ch = outerHeight g;
          left = w / 2 - cw / 2;
          top = h / 2 - ch / 2;
          left = (if left < 0 then 0 else left);
          top = (if h > ch * 2 \<and> top + ch / 2 > h / 3 then h / 3 - ch / 2 else top);
          top = (if top < 0 then 0 else top)
      in (top, left))"

text \<open>
  The choice made by \<open>Dialog.prototype.resize\<close>: \<open>this.params && this.params.x\<close> is truthy
  when the parameters carry an \<open>x\<close> other than \<open>0\<close>.
\<close>

definition place :: "params option \<Rightarrow> geometry \<Rightarrow> rat \<times> rat" where
  "place p g =
     (case p of
        None \<Rightarrow> center g
      | Some q \<Rightarrow>
          (case coords q of
             None \<Rightarrow> center g
           | Some (x, y) \<Rightarrow> if x \<noteq> 0 then stxContextMenu x y g else center g))"

section \<open>The document and its overlays (\<open>cq-menu\<close>, \<open>cq-dialog\<close>)\<close>

text \<open>
  The document is a tree of elements; an element has an identity, a tag name (in lower
  case), the names of the attributes written in the markup, and its children in document
  order.  An identity names one element.  What the components change at run time is kept
  in the state \<open>ui\<close> below, indexed by the identity of the element.
\<close>

datatype elem = Elem (eid: nat) (etag: string) (eattrs: "string list") (kids: "elem list")

text \<open>\<open>$(e).find('*')\<close>: the elements strictly inside \<open>e\<close>, in document order.\<close>

fun descendants :: "elem \<Rightarrow> elem list" where
  "descendants (Elem i t a ks) = concat (map (\<lambda>k. k # descendants k) ks)"

text \<open>
  \<open>$(x).parents().addBack()\<close> inside the tree \<open>e\<close>: the chain from \<open>e\<close> down to the
  element \<open>x\<close>, both included; empty when \<open>x\<close> is not in the tree.
\<close>

fun chainTo :: "nat \<Rightarrow> elem \<Rightarrow> elem list" where
  "chainTo x (Elem i t a ks) =
     (if i = x then [Elem i t a ks]
      else (case filter (\<lambda>p. p \<noteq> []) (map (chainTo x) ks) of
              [] \<Rightarrow> []
            | p # _ \<Rightarrow> Elem i t a ks # p))"

text \<open>\<open>$(x).parents()\<close>: the proper ancestors of \<open>x\<close>, the nearest first.\<close>

definition parents :: "elem \<Rightarrow> nat \<Rightarrow> elem list" where
  "parents d x = rev (butlast (chainTo x d))"

definition isMenu :: "elem \<Rightarrow> bool" where
  "isMenu e = (etag e = ''cq-menu'')"

definition isDialog :: "elem \<Rightarrow> bool" where
  "isDialog e = (etag e = ''cq-dialog'')"

definition isOverlay :: "elem \<Rightarrow> bool" where
  "isOverlay e = (isMenu e \<or> isDialog e)"

definition overlays :: "elem \<Rightarrow> elem list" where
  "overlays d = filter isOverlay (d # descendants d)"

text \<open>
  What the browser and the UI manager supply: the document, the elements
  \<open>uiManager.findLifts(menu)\<close> finds for a menu, and the geometry measured for a dialog.
\<close>

record env =
  doc :: elem
  findLifts :: "nat \<Rightarrow> nat list"
  geom :: "nat \<Rightarrow> geometry"

text \<open>
  The mutable state.  For a menu or dialog \<open>i\<close>: \<open>active s i\<close> is \<open>this.active\<close>,
  \<open>noClose s i\<close> is \<open>this.noClose\<close>, \<open>classActive s i\<close> says whether the node has the class
  \<open>stxMenuActive\<close>, \<open>lifts s i\<close> is \<open>this.lifts\<close>, \<open>dparams s i\<close> is \<open>this.params\<close>,
  \<open>activeAttributes s i\<close> are the keys of \<open>this.activeAttributes\<close>, \<open>nodeAttrs s i\<close> the
  attributes set on the node by \<open>attrBetter\<close>, and \<open>css s i\<close> the \<open>(top, left)\<close> last given
  to \<open>css\<close>.  \<open>activeElement\<close> is \<open>document.activeElement\<close> (\<open>None\<close>: no element has the
  focus), \<open>invalid s x\<close> says whether the form control \<open>x\<close> matches \<open>:invalid\<close>.
  \<open>overlay\<close> is \<open>uiManager.overlay\<close>: \<open>None\<close> for \<open>null\<close>, otherwise whether the scrim
  carries \<open>cq-active\<close>; \<open>scrims\<close> counts the scrims appended to \<open>BODY\<close>.
\<close>

record ui =
  active :: "nat \<Rightarrow> bool"
  noClose :: "nat \<Rightarrow> nat"
  classActive :: "nat \<Rightarrow> bool"
  lifts :: "nat \<Rightarrow> nat list option"
  dparams :: "nat \<Rightarrow> params option"
  activeAttributes :: "nat \<Rightarrow> string set"
  nodeAttrs :: "nat \<Rightarrow> string set"
  css :: "nat \<Rightarrow> (rat \<times> rat) option"
  activeElement :: "nat option"
  invalid :: "nat \<Rightarrow> bool"
  overlay :: "bool option"
  scrims :: nat

text \<open>
  \<open>$(this).find('input').each(function () { if (this === document.activeElement)
  this.blur(); })\<close>: the focus is dropped when it is on an \<open>input\<close> strictly inside \<open>e\<close>.
\<close>

definition inputsIn :: "elem \<Rightarrow> nat list" where
  "inputsIn e = map eid (filter (\<lambda>x. etag x = ''input'') (descendants e))"

definition blurInputs :: "elem \<Rightarrow> ui \<Rightarrow> ui" where
  "blurInputs e s =
     (case activeElement s of
        None \<Rightarrow> s
      | Some x \<Rightarrow> if x \<in> set (inputsIn e) then s\<lparr>activeElement := None\<rparr> else s)"

text \<open>
  \<open>Menu.prototype.lift\<close> and \<open>unlift\<close>.  They record the lifted elements in \<open>this.lifts\<close>;
  the restyling done by \<open>uiManager.lift\<close> and \<open>restoreLift\<close> is the UI manager's.
\<close>

definition Menu_lift :: "env \<Rightarrow> elem \<Rightarrow> ui \<Rightarrow> ui" where
  "Menu_lift env m s = s\<lparr>lifts := (lifts s)(eid m := Some (findLifts env (eid m)))\<rparr>"

definition Menu_unlift :: "elem \<Rightarrow> ui \<Rightarrow> ui" where
  "Menu_unlift m s =
     (case lifts s (eid m) of
        None \<Rightarrow> s
      | Some l \<Rightarrow> s\<lparr>lifts := (lifts s)(eid m := None)\<rparr>)"

text \<open>
  \<open>Menu.prototype.show(params)\<close>.  The resizing of nested \<open>cq-scroll\<close> elements only
  rewrites their height from the browser's layout and is not part of the state.
\<close>

definition Menu_show :: "env \<Rightarrow> elem \<Rightarrow> ui \<Rightarrow> ui" where
  "Menu_show env m s =
     (if active s (eid m) then s
      else Menu_lift env m
             (s\<lparr>active := (active s)(eid m := True),
                classActive := (classActive s)(eid m := True)\<rparr>))"

text \<open>\<open>Menu.prototype.hide\<close>.\<close>

definition Menu_hide :: "elem \<Rightarrow> ui \<Rightarrow> ui" where
  "Menu_hide m s =
     (if \<not> active s (eid m) then s
      else
        (let s1 = Menu_unlift m s;
             s2 = s1\<lparr>classActive := (classActive s1)(eid m := False),
                     active := (active s1)(eid m := False)\<rparr>
         in blurInputs m s2))"

text \<open>\<open>Dialog.prototype.resize\<close> (the nested scrollers apart, as for \<open>show\<close> of a menu).\<close>

definition Dialog_resize :: "env \<Rightarrow> elem \<Rightarrow> ui \<Rightarrow> ui" where
  "Dialog_resize env d s =
     s\<lparr>css := (css s)(eid d := Some (place (dparams s (eid d)) (geom env (eid d))))\<rparr>"

text \<open>
  \<open>Dialog.prototype.show(params)\<close>: the part that runs at once, followed by the callback
  given to \<open>setTimeout\<close>, which runs at the next turn of the event loop.
\<close>

definition Dialog_show :: "env \<Rightarrow> elem \<Rightarrow> params option \<Rightarrow> ui \<Rightarrow> ui" where
  "Dialog_show env d p s =
     (let q = (case p of None \<Rightarrow> no_params | Some q \<Rightarrow> q);
          s1 = s\<lparr>dparams := (dparams s)(eid d := Some q)\<rparr>;
          s2 = (if overlay s1 = None \<and> \<not> bypassOverlay q
                then s1\<lparr>overlay := Some False, scrims := Suc (scrims s1)\<rparr> else s1);
          s3 = (if overlay s2 \<noteq> None \<and> \<not> bypassOverlay q
                then s2\<lparr>overlay := Some True\<rparr> else s2);
          s4 = s3\<lparr>activeAttributes :=
                    (activeAttributes s3)(eid d := insert ''cq-active'' (activeAttributes s3 (eid d)))\<rparr>;
          s5 = s4\<lparr>nodeAttrs :=
                    (nodeAttrs s4)(eid d := nodeAttrs s4 (eid d) \<union> activeAttributes s4 (eid d))\<rparr>;
          s6 = Dialog_resize env d s5
      in s6\<lparr>active := (active s6)(eid d := True)\<rparr>)"

text \<open>
  The body of \<open>Dialog.prototype.hide\<close> after the \<open>hide()\<close> of the children has run.  The
  scrim loses \<open>cq-active\<close> and \<open>uiManager.overlay\<close> becomes \<open>null\<close>.
\<close>

definition Dialog_hide_self :: "elem \<Rightarrow> ui \<Rightarrow> ui" where
  "Dialog_hide_self d s =
     (let s1 = s\<lparr>active := (active s)(eid d := False), overlay := None\<rparr>;
          s2 = s1\<lparr>nodeAttrs := (nodeAttrs s1)(eid d := nodeAttrs s1 (eid d) - activeAttributes s1 (eid d)),
                  activeAttributes := (activeAttributes s1)(eid d := {})\<rparr>
      in blurInputs d s2)"

text \<open>
  \<open>hide()\<close> of an element.  A \<open>cq-menu\<close> runs \<open>Menu.prototype.hide\<close>.  A \<open>cq-dialog\<close> runs
  \<open>Dialog.prototype.hide\<close>: nothing happens when a form control inside it is invalid;
  otherwise every child that has a \<open>hide\<close> function runs it, and then the dialog itself is
  hidden.  Other elements have no \<open>hide\<close> here.
\<close>

fun hide :: "elem \<Rightarrow> ui \<Rightarrow> ui" where
  "hide (Elem i t a ks) s =
     (if t = ''cq-menu'' then Menu_hide (Elem i t a ks) s
      else if t = ''cq-dialog'' then
        (if list_ex (\<lambda>x. invalid s (eid x)) (descendants (Elem i t a ks)) then s
         else Dialog_hide_self (Elem i t a ks) (fold (\<lambda>k. hide k) ks s))
      else s)"

text \<open>\<open>show(params)\<close> of an overlay.\<close>

definition show_overlay :: "env \<Rightarrow> elem \<Rightarrow> params option \<Rightarrow> ui \<Rightarrow> ui" where
  "show_overlay env e p s =
     (if isMenu e then Menu_show env e s
      else if isDialog e then Dialog_show env e p s
      else s)"

text \<open>
  Modelled from the spec: the UI manager (\<open>cq-ui-manager\<close>) is not part of the sources; only
  its callers are.  The spec's \<open>openOverlay\<close> closes the overlays that are not ancestors,
  marks the overlay active and places it; the closing is done by \<open>Menu.prototype.tap\<close> before
  it calls \<open>open\<close>, the marking and the placing by \<open>show\<close>.  So \<open>uiManager.openMenu(menu,
  params)\<close> is the call of \<open>menu.show(params)\<close>.  The spec's \<open>closeOverlay\<close> is the call of
  \<open>hide\<close>: \<open>uiManager.closeMenu(menu)\<close> hides that overlay, and \<open>uiManager.closeMenu()\<close>,
  without argument, hides every overlay that is active ("close all menus").
\<close>

definition openMenu :: "env \<Rightarrow> elem \<Rightarrow> params option \<Rightarrow> ui \<Rightarrow> ui" where
  "openMenu env e p s = show_overlay env e p s"

definition closeMenu :: "env \<Rightarrow> elem option \<Rightarrow> ui \<Rightarrow> ui" where
  "closeMenu env target s =
     (case target of
        Some e \<Rightarrow> hide e s
      | None \<Rightarrow> fold hide (filter (\<lambda>e. active s (eid e)) (overlays (doc env))) s)"

text \<open>
  \<open>Menu.prototype.captureTap(e)\<close>, with \<open>target\<close> the identity of \<open>e.target\<close>.  An element
  has the attribute \<open>cq-no-close\<close> when \<open>attr\<close> does not return \<open>undefined\<close>.
\<close>

definition Menu_captureTap :: "env \<Rightarrow> elem \<Rightarrow> nat \<Rightarrow> ui \<Rightarrow> ui" where
  "Menu_captureTap env m target s =
     (let domChain = chainTo target (doc env);
          n = length (filter (\<lambda>e. ''cq-no-close'' \<in> set (eattrs e)) domChain);
          n = (if n = 0
               then length (filter (\<lambda>e. etag e = ''cq-separator'' \<or> etag e = ''cq-heading'') domChain)
               else n)
      in s\<lparr>noClose := (noClose s)(eid m := n)\<rparr>)"

text \<open>
  \<open>Menu.prototype.tap(e)\<close>.  Both branches call \<open>e.stopPropagation()\<close>; \<open>this.open()\<close>
  passes no parameters.
\<close>

definition Menu_tap :: "env \<Rightarrow> elem \<Rightarrow> nat \<Rightarrow> ui \<Rightarrow> ui" where
  "Menu_tap env m target s =
     (if active s (eid m) then
        (if noClose s (eid m) = 0 then closeMenu env (Some m) s else s)
      else
        (let insideDropdown = filter (\<lambda>e. etag e = ''cq-menu-dropdown'') (parents (doc env) target)
         in if insideDropdown \<noteq> [] then s
            else
              (let child = list_ex (\<lambda>p. active s (eid p))
                             (filter isOverlay (parents (doc env) (eid m)));
                   s1 = (if \<not> child then closeMenu env None s else s)
               in openMenu env m None s1)))"

text \<open>
  \<open>Dialog.prototype.tap(e)\<close> changes no state; the result says whether it called
  \<open>e.stopPropagation()\<close>.  \<open>topMenu\<close> is what \<open>uiManager.topMenu()\<close> returns.
\<close>

definition Dialog_tap :: "nat option \<Rightarrow> elem \<Rightarrow> ui \<Rightarrow> bool" where
  "Dialog_tap topMenu d s =
     (if topMenu = Some (eid d) then True
      else if \<not> active s (eid d) then True
      else False)"

text \<open>
  A menu listens for taps unless it has the attribute \<open>readonly\<close>
  (\<open>Menu.prototype.attachedCallback\<close>); a dialog always does.
\<close>

definition listening :: "elem \<Rightarrow> bool" where
  "listening e = (isMenu e \<and> ''readonly'' \<notin> set (eattrs e))"

text \<open>
  The capturing phase of a tap: \<open>captureTap\<close> runs on every listening menu on the way from
  the root down to the target.
\<close>

fun capture :: "env \<Rightarrow> nat \<Rightarrow> elem list \<Rightarrow> ui \<Rightarrow> ui" where
  "capture env target [] s = s"
| "capture env target (e # es) s =
     capture env target es (if listening e then Menu_captureTap env e target s else s)"

text \<open>
  The bubbling phase, from the target up: a listening menu runs \<open>tap\<close>, which always stops
  the propagation; a dialog runs its \<open>tap\<close>, which may stop it.  The flag of the result says
  whether the tap went on to the document, whose handler is the UI manager's.
\<close>

fun bubble :: "env \<Rightarrow> nat option \<Rightarrow> nat \<Rightarrow> elem list \<Rightarrow> ui \<Rightarrow> ui \<times> bool" where
  "bubble env topMenu target [] s = (s, True)"
| "bubble env topMenu target (e # es) s =
     (if listening e then (Menu_tap env e target s, False)
      else if isDialog e then
        (if Dialog_tap topMenu e s then (s, False) else bubble env topMenu target es s)
      else bubble env topMenu target es s)"

definition routeTap :: "env \<Rightarrow> nat option \<Rightarrow> nat \<Rightarrow> ui \<Rightarrow> ui \<times> bool" where
  "routeTap env topMenu target s =
     (let domChain = chainTo target (doc env)
      in bubble env topMenu target (rev domChain) (capture env target domChain s))"

text \<open>
  The operations on overlays: \<open>open(params)\<close> and \<open>close()\<close> of the overlay with a given
  identity (\<open>Menu.prototype.open\<close>, \<open>Dialog.prototype.open\<close> and the two \<open>close\<close>), the
  call \<open>uiManager.closeMenu()\<close> that components make to close everything, and a tap on a
  target, given with what \<open>uiManager.topMenu()\<close> returns at that moment.  An identity that
  is not in the document names no overlay: nothing happens.  A tap that no overlay stops
  goes on to the document; what the UI manager does with it there is not part of \<open>step\<close>.
\<close>

datatype op = Open nat "params option" | Close nat | CloseAll | Tap nat "nat option"

definition element :: "elem \<Rightarrow> nat \<Rightarrow> elem option" where
  "element d x = (case chainTo x d of [] \<Rightarrow> None | c # cs \<Rightarrow> Some (last (c # cs)))"

definition step :: "env \<Rightarrow> op \<Rightarrow> ui \<Rightarrow> ui" where
  "step env opn s =
     (case opn of
        Open x p \<Rightarrow>
          (case element (doc env) x of
             None \<Rightarrow> s
           | Some e \<Rightarrow> if isOverlay e then openMenu env e p s else s)
      | Close x \<Rightarrow>
          (case element (doc env) x of
             None \<Rightarrow> s
           | Some e \<Rightarrow> if isOverlay e then closeMenu env (Some e) s else s)
      | CloseAll \<Rightarrow> closeMenu env None s
      | Tap target topMenu \<Rightarrow> fst (routeTap env topMenu target s))"

definition run :: "env \<Rightarrow> op list \<Rightarrow> ui \<Rightarrow> ui" where
  "run env ops s = fold (step env) ops s"

text \<open>The state in which nothing is open and nothing has the focus.\<close>

definition closed_ui :: ui where
  "closed_ui =
     \<lparr>active = (\<lambda>_. False), noClose = (\<lambda>_. 0), classActive = (\<lambda>_. False),
      lifts = (\<lambda>_. None), dparams = (\<lambda>_. None), activeAttributes = (\<lambda>_. {}),
      nodeAttrs = (\<lambda>_. {}), css = (\<lambda>_. None), activeElement = None,
      invalid = (\<lambda>_. False), overlay = None, scrims = 0\<rparr>"

section \<open>Notions used to state the properties\<close>

text \<open>The focus \<open>f\<close> after it has been dropped from every \<open>input\<close> strictly inside \<open>e\<close>.\<close>

definition blurred :: "elem \<Rightarrow> nat option \<Rightarrow> nat option" where
  "blurred e f = (case f of None \<Rightarrow> None | Some x \<Rightarrow> if x \<in> set (inputsIn e) then None else Some x)"

text \<open>
  What a \<open>hide\<close> may do, used in the proofs: no overlay becomes active, the validity of the
  form controls stays, and the focus stays or is dropped from an element of \<open>I\<close>.
\<close>

definition shrinks :: "nat set \<Rightarrow> ui \<Rightarrow> ui \<Rightarrow> bool" where
  "shrinks I s s' =
     ((\<forall>x. active s' x \<longrightarrow> active s x) \<and> invalid s' = invalid s
      \<and> (activeElement s' = activeElement s
          \<or> (activeElement s' = None \<and> (\<exists>x\<in>I. activeElement s = Some x))))"

text \<open>An overlay that does not refuse to hide: a menu, or a dialog without invalid control.\<close>

definition closable :: "ui \<Rightarrow> elem \<Rightarrow> bool" where
  "closable s e = (isMenu e \<or> (isDialog e \<and> \<not> list_ex (\<lambda>x. invalid s (eid x)) (descendants e)))"







section \<open>Keystroke claimants\<close>

text \<open>
  The modifier keys of a routed keystroke, and what a \<open>keyStroke\<close> handler returns:
  \<open>undefined\<close>, \<open>false\<close>, \<open>true\<close> or the object \<open>{allowDefault: true}\<close>.  The last two are
  truthy: the keystroke was handled.
\<close>

record keystroke =
  ctrl :: bool
  cmd :: bool
  shift :: bool

datatype response = Undefined | RFalse | RTrue | AllowDefault

definition truthy :: "response \<Rightarrow> bool" where
  "truthy r = (r = RTrue \<or> r = AllowDefault)"

subsection \<open>The symbol lookup (\<open>cq-lookup\<close>)\<close>

text \<open>
  What a lookup asks of the rest of the page while it handles a key: \<open>acceptText\<close> of its
  driver, \<open>open()\<close> and \<open>close()\<close> of the menu or dialog around it, \<open>CIQ.blur\<close> of its
  input, \<open>selectItem\<close> with a symbol.  A text is a list of UTF-16 code units.
\<close>

datatype effect = AcceptText "nat list" | OpenMenu | CloseMenu | Blur | SelectItem "nat list"

text \<open>
  \<open>scrollable.length && scrollable[0].focused()\<close>: falsy, or the focused \<open>cq-item\<close>, which
  may have a \<open>selectFC\<close> callback.
\<close>

datatype scroll_focus = NoFocus | FocusedItem bool

text \<open>
  The lookup.  \<open>inputValue\<close> is \<open>input.value\<close>; \<open>hasDriver\<close> says whether
  \<open>this.params.driver\<close> is set, \<open>contextDriver\<close> whether \<open>this.context.lookupDriver\<close> is.
  The next fields are what the handler reads from the page when it starts:
  \<open>focusedInput\<close> (\<open>document.activeElement === input\<close>), \<open>otherInput\<close> (the active element
  is another \<open>INPUT\<close> or \<open>TEXTAREA\<close>), \<open>chainActive\<close> (an element of the chain from the
  lookup to the root has the class \<open>stxMenuActive\<close>), \<open>keystrokeDefault\<close> (the attribute
  \<open>cq-keystroke-default\<close>), \<open>hasTopMenu\<close> (\<open>uiManager.topMenu()\<close> is not null),
  \<open>anyHighlighted\<close> (of the chart), \<open>selectionText\<close> (\<open>window.getSelection().toString()\<close>
  is not empty), \<open>scrollFocused\<close> and \<open>uppercase\<close> (the attribute \<open>cq-uppercase\<close>).
  \<open>shown\<close> says whether the lookup is visible on the page; the handler never reads it.
  \<open>effects\<close> logs the requests made, in order.
\<close>

record lookup =
  inputValue :: "nat list"
  hasDriver :: bool
  contextDriver :: bool
  usingEmptyDriver :: bool
  focusedInput :: bool
  otherInput :: bool
  chainActive :: bool
  keystrokeDefault :: bool
  hasTopMenu :: bool
  anyHighlighted :: bool
  selectionText :: bool
  scrollFocused :: scroll_focus
  uppercase :: bool
  shown :: bool
  effects :: "effect list"

definition emit :: "effect \<Rightarrow> lookup \<Rightarrow> lookup" where
  "emit x l = l\<lparr>effects := effects l @ [x]\<rparr>"

text \<open>\<open>Lookup.prototype.acceptText(value, filter)\<close>, called with \<open>input.value\<close>.\<close>

definition acceptText :: "lookup \<Rightarrow> lookup" where
  "acceptText l =
     (let l1 = (if \<not> hasDriver l
                then (if contextDriver l then l\<lparr>hasDriver := True\<rparr>
                      else l\<lparr>hasDriver := True, usingEmptyDriver := True\<rparr>)
                else l)
      in emit (AcceptText (inputValue l1)) l1)"

text \<open>
  The four blocks of \<open>Lookup.prototype.keyStroke\<close> that follow the checks of eligibility.
  Each takes and returns the local \<open>result\<close> with the lookup; \<open>focused\<close> is the local of that
  name.  \<open>typed\<close>: a key code from 32 to 222 (a key name is not a number in that range).
\<close>

definition typed :: "key \<Rightarrow> bool \<Rightarrow> bool \<times> lookup \<Rightarrow> bool \<times> lookup" where
  "typed key focused rl =
     (case rl of (result, l) \<Rightarrow>
        (case key of
           KeyCode k \<Rightarrow>
             if 32 \<le> k \<and> k \<le> 222
             then (True, acceptText (if \<not> focused then l\<lparr>inputValue := inputValue l @ [k]\<rparr> else l))
             else (result, l)
         | KeyName n \<Rightarrow> (result, l)))"

text \<open>\<open>erased\<close>: the keys \<open>delete\<close> and \<open>backspace\<close>; \<open>None\<close> is the early \<open>return false\<close>.\<close>

definition erased :: "key \<Rightarrow> bool \<Rightarrow> bool \<times> lookup \<Rightarrow> (bool \<times> lookup) option" where
  "erased key focused rl =
     (case rl of (result, l) \<Rightarrow>
        if key = KeyName ''delete'' \<or> key = KeyName ''backspace'' then
          (if anyHighlighted l then None
           else
             (let (result, l) =
                    (if inputValue l \<noteq> [] then
                       (True,
                        if selectionText l then l\<lparr>inputValue := []\<rparr>
                        else
                          (let l1 = (if \<not> focused then l\<lparr>inputValue := butlast (inputValue l)\<rparr> else l)
                           in if inputValue l1 \<noteq> [] then acceptText l1 else l1))
                     else (result, l))
              in Some (if key = KeyName ''backspace'' then True else result, l)))
        else Some (result, l))"

text \<open>\<open>escaped\<close>: the key \<open>escape\<close> while the menu chain is active.\<close>

definition escaped :: "key \<Rightarrow> bool \<Rightarrow> bool \<times> lookup \<Rightarrow> bool \<times> lookup" where
  "escaped key iAmDisplayed rl =
     (case rl of (result, l) \<Rightarrow>
        if key = KeyName ''escape'' \<and> iAmDisplayed
        then (True, emit Blur (emit CloseMenu (l\<lparr>inputValue := []\<rparr>)))
        else (result, l))"

text \<open>
  \<open>entered\<close>: the key \<open>enter\<close> on a non-empty input.  The local \<open>focused\<close> is assigned
  anew and is returned as well.  With a focused item that has a callback the call
  \<open>focused.selectFC(...{})\<close> spreads an object that is not iterable, which throws a
  \<open>TypeError\<close>.  \<open>toUpperCase\<close> is the string method of that name.
\<close>

definition entered ::
  "(nat list \<Rightarrow> nat list) \<Rightarrow> key \<Rightarrow> bool \<Rightarrow> bool \<times> lookup \<Rightarrow> js_error + (bool \<times> bool \<times> lookup)" where
  "entered toUpperCase key focused rl =
     (case rl of (result, l) \<Rightarrow>
        if key = KeyName ''enter'' \<and> inputValue l \<noteq> [] then
          (if scrollFocused l = FocusedItem True then Inl TypeError
           else
             (let val = inputValue l;
                  val = (if uppercase l then toUpperCase val else val);
                  l1 = emit (SelectItem val) l;
                  l2 = emit CloseMenu (emit Blur l1)
              in Inr (scrollFocused l \<noteq> NoFocus, True, l2\<lparr>inputValue := []\<rparr>)))
        else Inr (focused, result, l))"

text \<open>The end of the handler: \<open>if (result) { ... }\<close>, else \<open>undefined\<close>.\<close>

definition finish :: "key \<Rightarrow> bool \<Rightarrow> bool \<times> lookup \<Rightarrow> response \<times> lookup" where
  "finish key focused rl =
     (case rl of (result, l) \<Rightarrow>
        if result then
          (let l1 = (if usingEmptyDriver l
                        \<or> (inputValue l = []
                            \<and> (key = KeyName ''escape'' \<or> key = KeyName ''enter'' \<or> \<not> focused))
                     then emit CloseMenu l else emit OpenMenu l)
           in (if focused then AllowDefault else RTrue, l1))
        else (Undefined, l))"

text \<open>\<open>Lookup.prototype.keyStroke(hub, key, e, keystroke)\<close>.\<close>

definition Lookup_keyStroke ::
  "(nat list \<Rightarrow> nat list) \<Rightarrow> key \<Rightarrow> keystroke \<Rightarrow> lookup \<Rightarrow> js_error + (response \<times> lookup)" where
  "Lookup_keyStroke toUpperCase key ks l =
     (if ctrl ks \<or> key = KeyCode 91 then Inr (RFalse, l)
      else
        (let focused = focusedInput l
         in if \<not> focused \<and> otherInput l then Inr (RFalse, l)
            else
              (let iAmDisplayed = chainActive l;
                   iAmActive = (focused \<or> iAmDisplayed)
               in if \<not> iAmActive \<and> \<not> keystrokeDefault l then Inr (Undefined, l)
                  else if \<not> iAmActive \<and> \<not> iAmDisplayed \<and> hasTopMenu l then Inr (Undefined, l)
                  else if key = KeyCode 32 \<and> inputValue l = [] then Inr (RFalse, l)
                  else
                    (case erased key focused (typed key focused (False, l)) of
                       None \<Rightarrow> Inr (RFalse, l)
                     | Some rl \<Rightarrow>
                         (case entered toUpperCase key focused (escaped key iAmDisplayed rl) of
                            Inl err \<Rightarrow> Inl err
                          | Inr (focused, rl) \<Rightarrow> Inr (finish key focused rl))))))"

subsection \<open>The undo button as a claimant\<close>

text \<open>\<open>Undo.prototype.keyStroke\<close>: ctrl-z, shift-ctrl-z and ctrl-y.\<close>

definition Undo_keyStroke ::
  "('d stx \<Rightarrow> 'd stx) \<Rightarrow> key \<Rightarrow> keystroke \<Rightarrow> 'd undo_state \<Rightarrow> response \<times> 'd undo_state" where
  "Undo_keyStroke stx_undo key ks s =
     (if key = KeyCode 90 \<and> (ctrl ks \<or> cmd ks)
      then (RTrue, if shift ks then redo s else undo stx_undo s)
      else if key = KeyCode 89 \<and> (ctrl ks \<or> cmd ks) then (RTrue, redo s)
      else (Undefined, s))"

subsection \<open>Routing a keystroke\<close>

text \<open>
  The components that register a claim with \<open>addClaim(this)\<close>, and the \<open>keyStroke\<close> of each;
  the flag of the result says whether the response was truthy.
\<close>

datatype 'd claimant = ScrollClaim scroll | LookupClaim lookup | UndoClaim "'d undo_state"

definition claimant_keyStroke ::
  "(nat list \<Rightarrow> nat list) \<Rightarrow> ('d stx \<Rightarrow> 'd stx) \<Rightarrow> key \<Rightarrow> keystroke \<Rightarrow> 'd claimant
   \<Rightarrow> js_error + (bool \<times> 'd claimant)" where
  "claimant_keyStroke toUpperCase stx_undo key ks c =
     (case c of
        ScrollClaim sc \<Rightarrow>
          (case Scroll_keyStroke key sc of
             Inl err \<Rightarrow> Inl err
           | Inr (r, sc') \<Rightarrow> Inr (r, ScrollClaim sc'))
      | LookupClaim l \<Rightarrow>
          (case Lookup_keyStroke toUpperCase key ks l of
             Inl err \<Rightarrow> Inl err
           | Inr (r, l') \<Rightarrow> Inr (truthy r, LookupClaim l'))
      | UndoClaim u \<Rightarrow>
          (case Undo_keyStroke stx_undo key ks u of
             (r, u') \<Rightarrow> Inr (truthy r, UndoClaim u')))"

text \<open>
  Modelled from the spec: the keystroke hub that holds the claims and calls the claimants
  is not part of the sources.  \<open>routeKeyStroke\<close> "iterates the registry in registration
  order; delivers to each claimant until one returns handled".  \<open>keyStroke\<close> is the handler
  of a claimant for the routed key.  The result is the list of the answers given by the
  claimants that were consulted, in order, with the registry after the call; an exception
  thrown by a handler ends the routing.
\<close>

fun routeKeyStroke ::
  "('c \<Rightarrow> js_error + (bool \<times> 'c)) \<Rightarrow> 'c list \<Rightarrow> js_error + (bool list \<times> 'c list)" where
  "routeKeyStroke keyStroke [] = Inr ([], [])"
| "routeKeyStroke keyStroke (c # cs) =
     (case keyStroke c of
        Inl err \<Rightarrow> Inl err
      | Inr (handled, c') \<Rightarrow>
          if handled then Inr ([True], c' # cs)
          else
            (case routeKeyStroke keyStroke cs of
               Inl err \<Rightarrow> Inl err
             | Inr (answers, cs') \<Rightarrow> Inr (False # answers, c' # cs')))"

text \<open>
  A lookup that is not visible, takes the default keystrokes of the page and has a driver;
  no input has the focus and no menu is open.
\<close>

definition hidden_lookup :: lookup where
  "hidden_lookup =
     \<lparr>inputValue = [], hasDriver = True, contextDriver = False, usingEmptyDriver = False,
      focusedInput = False, otherInput = False, chainActive = False, keystrokeDefault = True,
      hasTopMenu = False, anyHighlighted = False, selectionText = False,
      scrollFocused = NoFocus, uppercase = False, shown = False, effects = []\<rparr>"

definition plain_key :: keystroke where
  "plain_key = \<lparr>ctrl = False, cmd = False, shift = False\<rparr>"

section \<open>Example pages\<close>

text \<open>
  A page with a dialog that holds two menus and an input, a menu of its own whose dropdown
  has an item marked \<open>cq-no-close\<close>, a plain item, a separator and an input, and one more
  input.
\<close>

definition ex_menuA :: elem where
  "ex_menuA = Elem 2 ''cq-menu'' []
     [Elem 4 ''span'' [] [], Elem 6 ''cq-menu-dropdown'' [] [Elem 8 ''cq-item'' [] []]]"

definition ex_menuB :: elem where
  "ex_menuB = Elem 3 ''cq-menu'' []
     [Elem 5 ''span'' [] [], Elem 7 ''cq-menu-dropdown'' [] [Elem 9 ''cq-item'' [] []]]"

definition ex_dialog :: elem where
  "ex_dialog = Elem 1 ''cq-dialog'' [] [ex_menuA, ex_menuB, Elem 10 ''input'' [] []]"

definition ex_dropdown :: elem where
  "ex_dropdown = Elem 13 ''cq-menu-dropdown'' []
     [Elem 14 ''cq-item'' [''cq-no-close''] [], Elem 15 ''cq-item'' [] [],
      Elem 16 ''cq-separator'' [] [], Elem 17 ''input'' [] []]"

definition ex_menu :: elem where
  "ex_menu = Elem 11 ''cq-menu'' [] [Elem 12 ''span'' [] [], ex_dropdown]"

definition ex_page :: elem where
  "ex_page = Elem 0 ''body'' [] [ex_dialog, ex_menu, Elem 18 ''input'' [] []]"

definition ex_env :: env where
  "ex_env = \<lparr>doc = ex_page, findLifts = (\<lambda>_. []),
     geom = (\<lambda>_. \<lparr>parentWidth = 1000, parentHeight = 800, outerWidth = 200, outerHeight = 100\<rparr>)\<rparr>"




text \<open>
  States of the first page: the menu 11 opened by a tap on its label, the same with the
  focus on the input inside it, the menu 2 opened by \<open>open()\<close>, the dialog opened as a
  context menu at \<open>(10, 10)\<close>, and the dialog open with an invalid input that has the focus.
\<close>

definition menu_open :: ui where
  "menu_open = run ex_env [Tap 12 None] closed_ui"

definition typing_in_menu :: ui where
  "typing_in_menu = menu_open\<lparr>activeElement := Some 17\<rparr>"


definition at_point :: "params option" where
  "at_point = Some \<lparr>coords = Some (10, 10), bypassOverlay = False\<rparr>"

definition invalid_dialog :: ui where
  "invalid_dialog =
     closed_ui\<lparr>active := (active closed_ui)(1 := True),
               invalid := (invalid closed_ui)(10 := True),
               activeElement := Some 10\<rparr>"

section \<open>Verified properties\<close>

subsection \<open>Properties of undo and redo\<close>

lemma killActiveDrawings_idle:
  "\<forall>c\<in>set cs. \<not> activeDrawing (ch c) \<Longrightarrow> killActiveDrawings f cs ch b = (ch, b)"
  by (induction cs) auto

lemma undo_step:
  assumes "undostack s \<noteq> []" and "\<forall>c\<in>set (contexts s). \<not> activeDrawing (charts s c)"
  shows "undostack (undo f s) = butlast (undostack s)"
    and "redostack (undo f s) =
           redostack s @ [(fst (last (undostack s)),
                           drawingObjects (charts s (fst (last (undostack s)))))]"
    and "charts (undo f s) =
           (charts s)(fst (last (undostack s)) :=
              (charts s (fst (last (undostack s))))\<lparr>drawingObjects := snd (last (undostack s))\<rparr>)"
  using assms
  by (simp_all add: undo_def killActiveDrawings_idle setButtonStyle_def shallowClone_def
      Let_def split_beta)

lemma redo_step:
  assumes "redostack s = rs @ [(c, ds)]"
  shows "redostack (redo s) = rs"
    and "undostack (redo s) = undostack s @ [(c, drawingObjects (charts s c))]"
    and "charts (redo s) = (charts s)(c := (charts s c)\<lparr>drawingObjects := ds\<rparr>)"
  using assms
  by (simp_all add: redo_def setButtonStyle_def shallowClone_def Let_def)

text \<open>
  C10: with a non-empty undo stack and no drawing in progress, undo pops one entry of the
  undo stack and pushes one onto the redo stack, redo moves one back, undo followed by redo
  restores the drawing objects of every chart and both stacks, and a new undo stamp empties
  the redo stack.
\<close>

theorem undo_redo_roundtrip:
  assumes "undostack s \<noteq> []" and "\<forall>c\<in>set (contexts s). \<not> activeDrawing (charts s c)"
  shows "undostack (undo f s) = butlast (undostack s)
       \<and> length (redostack (undo f s)) = Suc (length (redostack s))
       \<and> butlast (redostack (undo f s)) = redostack s
       \<and> (\<forall>c. drawingObjects (charts (redo (undo f s)) c) = drawingObjects (charts s c))
       \<and> undostack (redo (undo f s)) = undostack s
       \<and> redostack (redo (undo f s)) = redostack s
       \<and> redostack (handleEvent c before s) = []
       \<and> undostack (handleEvent c before s) = undostack s @ [(c, before)]"
proof -
  let ?c = "fst (last (undostack s))"
  let ?u = "undo f s"
  note u = undo_step [OF assms, of f]
  have r: "redostack ?u = redostack s @ [(?c, drawingObjects (charts s ?c))]"
    by (rule u(2))
  note rd = redo_step [OF r]
  have 1: "undostack (redo ?u) = undostack s"
    using assms(1) by (simp add: rd(2) u(1) u(3))
  have 2: "\<forall>c. drawingObjects (charts (redo ?u) c) = drawingObjects (charts s c)"
    by (simp add: rd(3) u(3))
  have 3: "redostack (handleEvent c before s) = []"
    "undostack (handleEvent c before s) = undostack s @ [(c, before)]"
    by (simp_all add: handleEvent_def setButtonStyle_def Let_def)
  show ?thesis
    using 1 2 3 by (simp add: u(1) r rd(1))
qed

theorem undo_redo_roundtrip_witness:
  "undostack ex_undo \<noteq> []
   \<and> list_all (\<lambda>c. \<not> activeDrawing (charts ex_undo c)) (contexts ex_undo)
   \<and> undostack (undo id ex_undo) = []
   \<and> length (redostack (undo id ex_undo)) = 1
   \<and> drawingObjects (charts (redo (undo id ex_undo)) 0) = [3]
   \<and> undostack (redo (undo id ex_undo)) = [(0, [1, 2])]
   \<and> redostack (redo (undo id ex_undo)) = []"
proof -
  have h1: "undostack ex_undo \<noteq> []"
    by (simp add: ex_undo_def)
  have h2: "\<forall>c\<in>set (contexts ex_undo). \<not> activeDrawing (charts ex_undo c)"
    by (simp add: ex_undo_def)
  show ?thesis
    using h1 h2 undo_redo_roundtrip [OF h1 h2, of id 0 "[]"]
    by (simp add: ex_undo_def)
qed

subsection \<open>Keystrokes on an empty scroller\<close>

text \<open>
  C9: a visible scroller without any \<open>cq-item\<close> that receives the key \<open>down\<close> or \<open>up\<close>
  does not return: \<open>keyStroke\<close> passes \<open>items[0]\<close>, which is \<open>undefined\<close>, to
  \<open>scrollToElement\<close>, and reading \<open>offsetTop\<close> of it throws a \<open>TypeError\<close>.  The keys
  \<open>enter\<close> and space, and every other key, return \<open>false\<close> and change nothing.
\<close>

theorem Scroll_keyStroke_empty_throws:
  "Scroll_keyStroke (KeyName ''down'') empty_scroll = Inl TypeError
   \<and> Scroll_keyStroke (KeyName ''up'') empty_scroll = Inl TypeError
   \<and> Scroll_keyStroke (KeyName ''enter'') empty_scroll = Inr (False, empty_scroll)
   \<and> Scroll_keyStroke (KeyCode 65) empty_scroll = Inr (False, empty_scroll)"
  by (simp add: Scroll_keyStroke_def empty_scroll_def scrollToElement_def item_at_def
      focus_at_def)

subsection \<open>Where a dialog is placed\<close>

lemma center_eq:
  assumes "0 \<le> outerHeight g"
  shows "center g =
     (if parentHeight g > 2 * outerHeight g then parentHeight g / 3 - outerHeight g / 2
      else max 0 (parentHeight g / 2 - outerHeight g / 2),
      max 0 (parentWidth g / 2 - outerWidth g / 2))"
  using assms by (auto simp: center_def Let_def max_def)

lemma stxContextMenu_fits:
  assumes "0 \<le> x" and "0 \<le> y" and "y \<le> parentHeight g"
    and "outerWidth g \<le> parentWidth g" and "outerHeight g \<le> parentHeight g"
  shows "0 \<le> fst (stxContextMenu x y g)"
    and "0 \<le> snd (stxContextMenu x y g)"
    and "fst (stxContextMenu x y g) + outerHeight g \<le> parentHeight g"
    and "snd (stxContextMenu x y g) + outerWidth g \<le> parentWidth g"
    and "x + outerWidth g \<le> parentWidth g \<longrightarrow> snd (stxContextMenu x y g) = x"
    and "y + outerHeight g \<le> parentHeight g \<longrightarrow> fst (stxContextMenu x y g) = y"
  using assms by (auto simp: stxContextMenu_def Let_def)

text \<open>
  C7, first half as stated: a dialog wider than its region, opened at the point \<open>(10, 10)\<close>,
  gets a negative \<open>left\<close>.
\<close>

theorem place_negative_left:
  "place (Some \<lparr>coords = Some (10, 10), bypassOverlay = False\<rparr>)
     \<lparr>parentWidth = 100, parentHeight = 100, outerWidth = 200, outerHeight = 50\<rparr>
   = (10, - 100)"
  by (simp add: place_def stxContextMenu_def)

text \<open>
  C7, amended: for a dialog whose height is not negative, (a) opened at a point \<open>(x, y)\<close>
  with \<open>0 < x\<close> and \<open>0 \<le> y \<le> h\<close>, and fitting its region (\<open>cw \<le> w\<close>, \<open>ch \<le> h\<close>), the
  dialog is placed with \<open>left\<close> and \<open>top\<close> not negative and its right and bottom edges inside
  the region, at the point itself when it fits there; (b) opened without coordinates, it is
  centred, \<open>left = w/2 - cw/2\<close> and \<open>top = h/2 - ch/2\<close> clamped at \<open>0\<close>, except that in a
  tall region (\<open>h > 2 * ch\<close>) its vertical centre is at \<open>h/3\<close>.
\<close>

theorem place_on_screen:
  assumes "0 \<le> outerHeight g"
  shows "(0 < x \<and> 0 \<le> y \<and> y \<le> parentHeight g \<and> outerWidth g \<le> parentWidth g
            \<and> outerHeight g \<le> parentHeight g \<longrightarrow>
          (let (top, left) = place (Some \<lparr>coords = Some (x, y), bypassOverlay = b\<rparr>) g
           in 0 \<le> left \<and> 0 \<le> top
              \<and> left + outerWidth g \<le> parentWidth g \<and> top + outerHeight g \<le> parentHeight g
              \<and> (x + outerWidth g \<le> parentWidth g \<longrightarrow> left = x)
              \<and> (y + outerHeight g \<le> parentHeight g \<longrightarrow> top = y)))
       \<and> place (Some \<lparr>coords = None, bypassOverlay = b\<rparr>) g =
           (if parentHeight g > 2 * outerHeight g then parentHeight g / 3 - outerHeight g / 2
            else max 0 (parentHeight g / 2 - outerHeight g / 2),
            max 0 (parentWidth g / 2 - outerWidth g / 2))
       \<and> (parentHeight g > 2 * outerHeight g \<longrightarrow>
            fst (place (Some \<lparr>coords = None, bypassOverlay = b\<rparr>) g) + outerHeight g / 2
              = parentHeight g / 3)"
proof (intro conjI impI)
  assume h: "0 < x \<and> 0 \<le> y \<and> y \<le> parentHeight g \<and> outerWidth g \<le> parentWidth g
            \<and> outerHeight g \<le> parentHeight g"
  have p: "place (Some \<lparr>coords = Some (x, y), bypassOverlay = b\<rparr>) g = stxContextMenu x y g"
    using h by (simp add: place_def)
  from h have h': "0 \<le> x" "0 \<le> y" "y \<le> parentHeight g" "outerWidth g \<le> parentWidth g"
    "outerHeight g \<le> parentHeight g"
    by simp_all
  note f = stxContextMenu_fits [OF h']
  show "let (top, left) = place (Some \<lparr>coords = Some (x, y), bypassOverlay = b\<rparr>) g
           in 0 \<le> left \<and> 0 \<le> top
              \<and> left + outerWidth g \<le> parentWidth g \<and> top + outerHeight g \<le> parentHeight g
              \<and> (x + outerWidth g \<le> parentWidth g \<longrightarrow> left = x)
              \<and> (y + outerHeight g \<le> parentHeight g \<longrightarrow> top = y)"
    unfolding p split_beta Let_def by (intro conjI) (rule f)+
next
  have b: "place (Some \<lparr>coords = None, bypassOverlay = b\<rparr>) g = center g"
    by (simp add: place_def)
  show "place (Some \<lparr>coords = None, bypassOverlay = b\<rparr>) g =
           (if parentHeight g > 2 * outerHeight g then parentHeight g / 3 - outerHeight g / 2
            else max 0 (parentHeight g / 2 - outerHeight g / 2),
            max 0 (parentWidth g / 2 - outerWidth g / 2))"
    unfolding b by (rule center_eq [OF assms])
  assume "parentHeight g > 2 * outerHeight g"
  then show "fst (place (Some \<lparr>coords = None, bypassOverlay = b\<rparr>) g) + outerHeight g / 2
              = parentHeight g / 3"
    unfolding b center_eq [OF assms] by simp
qed

theorem place_on_screen_witness:
  "(0::rat) \<le> 20
   \<and> place (Some \<lparr>coords = Some (90, 95), bypassOverlay = False\<rparr>)
       \<lparr>parentWidth = 100, parentHeight = 100, outerWidth = 20, outerHeight = 20\<rparr> = (75, 80)
   \<and> place (Some \<lparr>coords = None, bypassOverlay = False\<rparr>)
       \<lparr>parentWidth = 100, parentHeight = 100, outerWidth = 20, outerHeight = 20\<rparr> = (70 / 3, 40)"
proof -
  let ?g = "\<lparr>parentWidth = 100, parentHeight = 100, outerWidth = 20, outerHeight = 20\<rparr>"
  have h: "0 \<le> outerHeight ?g"
    by simp
  have c: "place (Some \<lparr>coords = Some (90, 95), bypassOverlay = False\<rparr>) ?g = (75, 80)"
    by (simp add: place_def stxContextMenu_def)
  have "place (Some \<lparr>coords = None, bypassOverlay = False\<rparr>) ?g =
           (if parentHeight ?g > 2 * outerHeight ?g then parentHeight ?g / 3 - outerHeight ?g / 2
            else max 0 (parentHeight ?g / 2 - outerHeight ?g / 2),
            max 0 (parentWidth ?g / 2 - outerWidth ?g / 2))"
    using place_on_screen [OF h, of 90 95 False] by (rule conjunct1 [OF conjunct2])
  then have d: "place (Some \<lparr>coords = None, bypassOverlay = False\<rparr>) ?g = (70 / 3, 40)"
    by simp
  show ?thesis
    using c d by simp
qed

subsection \<open>What hiding may change\<close>

lemma blurInputs_fields [simp]:
  "active (blurInputs e s) = active s"
  "invalid (blurInputs e s) = invalid s"
  "noClose (blurInputs e s) = noClose s"
  by (simp_all add: blurInputs_def split: option.splits)

lemma blurInputs_focus: "activeElement (blurInputs e s) = blurred e (activeElement s)"
  by (auto simp: blurInputs_def blurred_def split: option.splits)

lemma Menu_unlift_fields [simp]:
  "active (Menu_unlift m s) = active s"
  "invalid (Menu_unlift m s) = invalid s"
  "activeElement (Menu_unlift m s) = activeElement s"
  "classActive (Menu_unlift m s) = classActive s"
  by (simp_all add: Menu_unlift_def split: option.splits)

lemma Menu_hide_active:
  "active (Menu_hide m s) = (if active s (eid m) then (active s)(eid m := False) else active s)"
  by (simp add: Menu_hide_def Let_def)

lemma Menu_hide_invalid [simp]: "invalid (Menu_hide m s) = invalid s"
  by (simp add: Menu_hide_def Let_def)

lemma Menu_hide_focus:
  "activeElement (Menu_hide m s) =
     (if active s (eid m) then blurred m (activeElement s) else activeElement s)"
  by (simp add: Menu_hide_def Let_def blurInputs_focus)

lemma Dialog_hide_self_active [simp]:
  "active (Dialog_hide_self d s) = (active s)(eid d := False)"
  by (simp add: Dialog_hide_self_def Let_def)

lemma Dialog_hide_self_invalid [simp]: "invalid (Dialog_hide_self d s) = invalid s"
  by (simp add: Dialog_hide_self_def Let_def)

lemma Dialog_hide_self_focus:
  "activeElement (Dialog_hide_self d s) = blurred d (activeElement s)"
  by (simp add: Dialog_hide_self_def Let_def blurInputs_focus)

lemma descendants_kid:
  "k \<in> set ks \<Longrightarrow> set (descendants k) \<subseteq> set (descendants (Elem i t a ks))"
  by auto

lemma inputsIn_kid:
  "k \<in> set ks \<Longrightarrow> set (inputsIn k) \<subseteq> set (inputsIn (Elem i t a ks))"
  using descendants_kid [of k ks i t a] unfolding inputsIn_def by auto

lemma shrinks_refl: "shrinks I s s"
  by (simp add: shrinks_def)

lemma shrinks_trans: "shrinks I s s' \<Longrightarrow> shrinks I s' s'' \<Longrightarrow> shrinks I s s''"
  unfolding shrinks_def by metis

lemma shrinks_mono: "shrinks I s s' \<Longrightarrow> I \<subseteq> J \<Longrightarrow> shrinks J s s'"
  by (auto simp: shrinks_def)

lemma fold_hide_shrinks:
  assumes "\<And>k s. k \<in> set ks \<Longrightarrow> shrinks I s (f k s)"
  shows "shrinks I s (fold f ks s)"
  using assms
proof (induction ks arbitrary: s)
  case Nil
  then show ?case by (simp add: shrinks_refl)
next
  case (Cons k ks)
  have "shrinks I s (f k s)" by (rule Cons.prems) simp
  moreover have "shrinks I (f k s) (fold f ks (f k s))"
    by (rule Cons.IH) (rule Cons.prems, simp)
  ultimately show ?case by (simp add: shrinks_trans)
qed

lemma Menu_hide_shrinks: "shrinks (set (inputsIn m)) s (Menu_hide m s)"
  by (auto simp: shrinks_def Menu_hide_active Menu_hide_focus blurred_def split: option.splits)

lemma Dialog_hide_self_shrinks: "shrinks (set (inputsIn d)) s (Dialog_hide_self d s)"
  by (auto simp: shrinks_def Dialog_hide_self_focus blurred_def split: option.splits)

lemma hide_shrinks: "shrinks (set (inputsIn e)) s (hide e s)"
proof (induction e arbitrary: s)
  case (Elem i t a ks)
  let ?e = "Elem i t a ks"
  have kids: "shrinks (set (inputsIn ?e)) s' (hide k s')" if "k \<in> set ks" for k s'
  proof -
    have "shrinks (set (inputsIn k)) s' (hide k s')"
      using Elem.IH [OF that] .
    moreover have "set (inputsIn k) \<subseteq> set (inputsIn ?e)"
      using that by (rule inputsIn_kid)
    ultimately show ?thesis by (rule shrinks_mono)
  qed
  have f: "shrinks (set (inputsIn ?e)) s (fold (\<lambda>k. hide k) ks s)"
    by (rule fold_hide_shrinks) (rule kids)
  have d: "shrinks (set (inputsIn ?e)) s (Dialog_hide_self ?e (fold (\<lambda>k. hide k) ks s))"
    by (rule shrinks_trans [OF f Dialog_hide_self_shrinks])
  show ?case
    using d Menu_hide_shrinks [of ?e s] by (auto simp: shrinks_refl)
qed

subsection \<open>Closing an overlay\<close>

lemma hide_menu: "isMenu e \<Longrightarrow> hide e s = Menu_hide e s"
  by (cases e) (simp add: isMenu_def)

lemma hide_dialog:
  "isDialog e \<Longrightarrow>
   hide e s =
     (if list_ex (\<lambda>x. invalid s (eid x)) (descendants e) then s
      else Dialog_hide_self e (fold hide (kids e) s))"
  by (cases e) (simp add: isDialog_def)

lemma Menu_hide_idle: "\<not> active s (eid m) \<Longrightarrow> Menu_hide m s = s"
  by (simp add: Menu_hide_def)

lemma hide_other: "\<not> isOverlay e \<Longrightarrow> hide e s = s"
  by (cases e) (simp add: isOverlay_def isMenu_def isDialog_def)

lemma hide_inactive: "closable s e \<Longrightarrow> \<not> active (hide e s) (eid e)"
  by (auto simp: closable_def hide_menu hide_dialog Menu_hide_active split: if_splits)


lemma hide_invalid: "invalid (hide e s) = invalid s"
  using hide_shrinks [of e s] by (simp add: shrinks_def)


lemma fold_hide_invalid: "invalid (fold hide es s) = invalid s"
  by (induction es arbitrary: s) (auto simp: hide_invalid)



lemma hide_dialog_focus:
  assumes "isDialog e" and "\<not> list_ex (\<lambda>x. invalid s (eid x)) (descendants e)"
  shows "activeElement (hide e s) = blurred e (activeElement s)"
proof -
  let ?s' = "fold hide (kids e) s"
  have "shrinks (set (inputsIn e)) s ?s'"
  proof (rule fold_hide_shrinks)
    fix k s0
    assume k: "k \<in> set (kids e)"
    have "set (inputsIn k) \<subseteq> set (inputsIn e)"
      using inputsIn_kid [OF k, of "eid e" "etag e" "eattrs e"] by simp
    then show "shrinks (set (inputsIn e)) s0 (hide k s0)"
      using hide_shrinks [of k s0] shrinks_mono by blast
  qed
  then have "activeElement ?s' = activeElement s
           \<or> (activeElement ?s' = None \<and> (\<exists>x\<in>set (inputsIn e). activeElement s = Some x))"
    by (simp add: shrinks_def)
  then show ?thesis
    using assms by (auto simp: hide_dialog Dialog_hide_self_focus blurred_def)
qed

text \<open>
  C5, amended: closing an overlay with \<open>hide\<close> does nothing at all when the overlay is a
  menu that is not active or a dialog that holds an invalid form control.  In every other
  case the overlay is inactive afterwards, the focus is dropped when it was on an \<open>input\<close>
  strictly inside the overlay, and a focus anywhere else stays where it was.
\<close>

theorem hide_closes_and_blurs:
  assumes "isOverlay ov"
  shows "if (isMenu ov \<and> \<not> active s (eid ov))
            \<or> (isDialog ov \<and> list_ex (\<lambda>x. invalid s (eid x)) (descendants ov))
         then hide ov s = s
         else \<not> active (hide ov s) (eid ov)
              \<and> activeElement (hide ov s) = blurred ov (activeElement s)"
proof (cases "isMenu ov")
  case True
  then have "\<not> isDialog ov" by (auto simp: isMenu_def isDialog_def)
  then show ?thesis
    using True by (simp add: hide_menu Menu_hide_active Menu_hide_focus Menu_hide_idle)
next
  case False
  then have d: "isDialog ov" using assms by (simp add: isOverlay_def)
  show ?thesis
  proof (cases "list_ex (\<lambda>x. invalid s (eid x)) (descendants ov)")
    case True
    then show ?thesis using d by (simp add: hide_dialog)
  next
    case nv: False
    have "closable s ov" using d nv by (simp add: closable_def)
    then have "\<not> active (hide ov s) (eid ov)" by (rule hide_inactive)
    then show ?thesis
      using False nv hide_dialog_focus [OF d nv] by simp
  qed
qed

text \<open>
  C5 as stated fails for a dialog with an invalid input that has the focus: \<open>hide\<close> returns
  at once, the dialog stays active and the input inside it keeps the focus.
\<close>

theorem hide_refused_by_invalid:
  "active (hide ex_dialog invalid_dialog) (eid ex_dialog)
   \<and> activeElement (hide ex_dialog invalid_dialog) = Some 10
   \<and> 10 \<in> set (inputsIn ex_dialog)"
  by code_simp

theorem hide_closes_and_blurs_witness:
  "isOverlay ex_menu \<and> active typing_in_menu (eid ex_menu)
   \<and> \<not> active (hide ex_menu typing_in_menu) (eid ex_menu)
   \<and> activeElement (hide ex_menu typing_in_menu) = None"
proof -
  have h1: "isOverlay ex_menu" by code_simp
  have h2: "active typing_in_menu (eid ex_menu)" by code_simp
  have c: "\<not> ((isMenu ex_menu \<and> \<not> active typing_in_menu (eid ex_menu))
            \<or> (isDialog ex_menu
                \<and> list_ex (\<lambda>x. invalid typing_in_menu (eid x)) (descendants ex_menu)))"
    by code_simp
  have b: "blurred ex_menu (activeElement typing_in_menu) = None" by code_simp
  from hide_closes_and_blurs [OF h1, of typing_in_menu] c
  have "\<not> active (hide ex_menu typing_in_menu) (eid ex_menu)
        \<and> activeElement (hide ex_menu typing_in_menu) = blurred ex_menu (activeElement typing_in_menu)"
    by simp
  then show ?thesis
    using h1 h2 b by simp
qed

subsection \<open>Opening a menu by a tap\<close>








subsection \<open>Opening an overlay that is open\<close>

lemma Menu_show_again: "active s (eid m) \<Longrightarrow> Menu_show env m s = s"
  by (simp add: Menu_show_def)

lemma Dialog_show_fields:
  "dparams (Dialog_show env d p s) = (dparams s)(eid d := Some (case p of None \<Rightarrow> no_params | Some q \<Rightarrow> q))"
  "overlay (Dialog_show env d p s) =
     (if bypassOverlay (case p of None \<Rightarrow> no_params | Some q \<Rightarrow> q) then overlay s else Some True)"
  "scrims (Dialog_show env d p s) =
     (if overlay s = None \<and> \<not> bypassOverlay (case p of None \<Rightarrow> no_params | Some q \<Rightarrow> q)
      then Suc (scrims s) else scrims s)"
  "activeAttributes (Dialog_show env d p s) =
     (activeAttributes s)(eid d := insert ''cq-active'' (activeAttributes s (eid d)))"
  "nodeAttrs (Dialog_show env d p s) =
     (nodeAttrs s)(eid d := nodeAttrs s (eid d) \<union> insert ''cq-active'' (activeAttributes s (eid d)))"
  "css (Dialog_show env d p s) =
     (css s)(eid d := Some (place (Some (case p of None \<Rightarrow> no_params | Some q \<Rightarrow> q)) (geom env (eid d))))"
  "active (Dialog_show env d p s) = (active s)(eid d := True)"
  "noClose (Dialog_show env d p s) = noClose s"
  "classActive (Dialog_show env d p s) = classActive s"
  "lifts (Dialog_show env d p s) = lifts s"
  "activeElement (Dialog_show env d p s) = activeElement s"
  "invalid (Dialog_show env d p s) = invalid s"
  "ui.more (Dialog_show env d p s) = ui.more s"
  by (auto simp: Dialog_show_def Dialog_resize_def Let_def)

lemma Dialog_show_again:
  "Dialog_show env d p (Dialog_show env d p s) = Dialog_show env d p s"
  by (rule ui.equality) (auto simp: Dialog_show_fields)

text \<open>
  C4, amended: \<open>show\<close> on a menu that is active changes nothing; \<open>show\<close> on a dialog,
  repeated with the same parameters while the geometry is the same, changes nothing the
  second time.
\<close>

theorem show_again_noop:
  "(active s (eid m) \<longrightarrow> Menu_show env m s = s)
   \<and> Dialog_show env d p (Dialog_show env d p s) = Dialog_show env d p s"
  by (simp add: Menu_show_again Dialog_show_again)

text \<open>
  C4 as stated fails for a dialog: opened at the point \<open>(10, 10)\<close> and opened again without
  parameters while it is active, it moves to the centre of its region.
\<close>

theorem show_again_moves_dialog:
  "active (Dialog_show ex_env ex_dialog at_point closed_ui) (eid ex_dialog)
   \<and> css (Dialog_show ex_env ex_dialog at_point closed_ui) (eid ex_dialog) = Some (10, 10)
   \<and> css (Dialog_show ex_env ex_dialog None (Dialog_show ex_env ex_dialog at_point closed_ui))
        (eid ex_dialog) = Some (650 / 3, 400)"
  by code_simp

theorem show_again_noop_witness:
  "active menu_open (eid ex_menu)
   \<and> Menu_show ex_env ex_menu menu_open = menu_open
   \<and> Dialog_show ex_env ex_dialog at_point (Dialog_show ex_env ex_dialog at_point menu_open)
       = Dialog_show ex_env ex_dialog at_point menu_open"
proof -
  have h: "active menu_open (eid ex_menu)" by code_simp
  show ?thesis
    using h show_again_noop [where m = ex_menu and s = menu_open and env = ex_env
        and p = at_point and d = ex_dialog]
    by blast
qed

subsection \<open>Taps inside an open menu\<close>










subsection \<open>How many overlays are open\<close>













subsection \<open>Routing a keystroke\<close>

lemma routeKeyStroke_shape:
  "routeKeyStroke keyStroke cs = Inr (answers, cs') \<Longrightarrow>
   (answers = replicate (length cs) False
      \<or> (\<exists>n<length cs. answers = replicate n False @ [True]))
   \<and> length cs' = length cs
   \<and> drop (length answers) cs' = drop (length answers) cs
   \<and> (\<forall>i<length answers. keyStroke (cs ! i) = Inr (answers ! i, cs' ! i))"
proof (induction cs arbitrary: answers cs')
  case Nil
  then show ?case by simp
next
  case (Cons c cs)
  from Cons.prems obtain handled c' where k: "keyStroke c = Inr (handled, c')"
    by (auto split: sum.splits)
  show ?case
  proof (cases handled)
    case True
    then have "answers = [True]" "cs' = c' # cs"
      using Cons.prems k by simp_all
    then show ?thesis using k True by auto
  next
    case False
    then obtain as cs0 where r: "routeKeyStroke keyStroke cs = Inr (as, cs0)"
      and a: "answers = False # as" "cs' = c' # cs0"
      using Cons.prems k by (auto split: sum.splits)
    note ih = Cons.IH [OF r]
    have 1: "answers = replicate (length (c # cs)) False
              \<or> (\<exists>n<length (c # cs). answers = replicate n False @ [True])"
    proof -
      from ih have "as = replicate (length cs) False
          \<or> (\<exists>n<length cs. as = replicate n False @ [True])" by simp
      then show ?thesis
      proof
        assume "as = replicate (length cs) False"
        then show ?thesis using a(1) by simp
      next
        assume "\<exists>n<length cs. as = replicate n False @ [True]"
        then obtain n where n: "n < length cs" "as = replicate n False @ [True]" by blast
        then have "Suc n < length (c # cs) \<and> answers = replicate (Suc n) False @ [True]"
          using a(1) by simp
        then show ?thesis by blast
      qed
    qed
    have 2: "\<forall>i<length answers. keyStroke ((c # cs) ! i) = Inr (answers ! i, cs' ! i)"
    proof (intro allI impI)
      fix i assume "i < length answers"
      then show "keyStroke ((c # cs) ! i) = Inr (answers ! i, cs' ! i)"
        using ih a k False by (cases i) simp_all
    qed
    show ?thesis
      using 1 2 ih a by simp
  qed
qed

text \<open>
  C2: when the routing of a keystroke returns, at most one claimant has answered "handled".
  The claimants are consulted in the order of the registry: either all of them were
  consulted and none handled the key, or the last one consulted handled it and the ones
  before it did not; each answer is the one of the claimant's handler, and the claimants
  after the one that handled the key are not touched.
\<close>

theorem routeKeyStroke_at_most_one:
  assumes "routeKeyStroke keyStroke cs = Inr (answers, cs')"
  shows "length (filter id answers) \<le> 1
       \<and> (answers = replicate (length cs) False
            \<or> (\<exists>n<length cs. answers = replicate n False @ [True]))
       \<and> (\<forall>i<length answers. keyStroke (cs ! i) = Inr (answers ! i, cs' ! i))
       \<and> drop (length answers) cs' = drop (length answers) cs"
proof -
  note s = routeKeyStroke_shape [OF assms]
  from s have "answers = replicate (length cs) False
      \<or> (\<exists>n<length cs. answers = replicate n False @ [True])" by simp
  then have "length (filter id answers) \<le> 1"
    by auto
  then show ?thesis using s by simp
qed

theorem routeKeyStroke_at_most_one_witness:
  "\<exists>answers cs'.
     routeKeyStroke (claimant_keyStroke id id (KeyCode 65) plain_key)
       [ScrollClaim two_items, LookupClaim hidden_lookup, LookupClaim hidden_lookup :: nat claimant]
       = Inr (answers, cs')
     \<and> answers = [False, True]
     \<and> length (filter id answers) \<le> 1
     \<and> drop (length answers) cs' = [LookupClaim hidden_lookup]"
proof -
  let ?r = "routeKeyStroke (claimant_keyStroke id id (KeyCode 65) plain_key)
       [ScrollClaim two_items, LookupClaim hidden_lookup, LookupClaim hidden_lookup :: nat claimant]"
  have a: "map_sum id fst ?r = Inr [False, True]"
    by code_simp
  then obtain answers cs' where r: "?r = Inr (answers, cs')"
    by (cases ?r) auto
  have ans: "answers = [False, True]"
    using a [unfolded r] by simp
  have "length (filter id answers) \<le> 1
        \<and> drop (length answers) cs' = drop (length answers)
             [ScrollClaim two_items, LookupClaim hidden_lookup, LookupClaim hidden_lookup]"
    using routeKeyStroke_at_most_one [OF r] by simp
  then show ?thesis
    using r ans by simp
qed

subsection \<open>When a claimant handles a keystroke\<close>

lemma Lookup_keyStroke_idle:
  assumes "\<not> (focusedInput l \<or> chainActive l \<or> (keystrokeDefault l \<and> \<not> hasTopMenu l))"
  shows "Lookup_keyStroke up key ks l = Inr (RFalse, l)
       \<or> Lookup_keyStroke up key ks l = Inr (Undefined, l)"
  using assms by (auto simp: Lookup_keyStroke_def Let_def)

lemma Scroll_keyStroke_hidden:
  "\<not> trulyvisible sc \<Longrightarrow> Scroll_keyStroke key sc = Inr (False, sc)"
  by (simp add: Scroll_keyStroke_def)

text \<open>
  C3, amended: the handler of a lookup returns a truthy response only when its input has
  the focus, or its menu chain is active, or it takes the default keystrokes and no menu is
  on top; in every other case it returns \<open>false\<close> or \<open>undefined\<close> and changes nothing.
  Whether the lookup is visible is not asked.  The handler of a scroller returns \<open>true\<close> only
  when the scroller is visible, and returns \<open>false\<close> and changes nothing when it is not;
  focus, menu chain and default claim are not asked.
\<close>

theorem keyStroke_only_when_eligible:
  "(\<forall>r l'. Lookup_keyStroke up key ks l = Inr (r, l') \<and> truthy r \<longrightarrow>
        focusedInput l \<or> chainActive l \<or> (keystrokeDefault l \<and> \<not> hasTopMenu l))
   \<and> (\<not> (focusedInput l \<or> chainActive l \<or> (keystrokeDefault l \<and> \<not> hasTopMenu l)) \<longrightarrow>
        Lookup_keyStroke up key ks l = Inr (RFalse, l)
        \<or> Lookup_keyStroke up key ks l = Inr (Undefined, l))
   \<and> (\<forall>sc'. Scroll_keyStroke k sc = Inr (True, sc') \<longrightarrow> trulyvisible sc)
   \<and> (\<not> trulyvisible sc \<longrightarrow> Scroll_keyStroke k sc = Inr (False, sc))"
proof -
  have 1: "focusedInput l \<or> chainActive l \<or> (keystrokeDefault l \<and> \<not> hasTopMenu l)"
    if "Lookup_keyStroke up key ks l = Inr (r, l')" "truthy r" for r l'
    using that Lookup_keyStroke_idle [of l up key ks] by (auto simp: truthy_def)
  have 2: "trulyvisible sc" if "Scroll_keyStroke k sc = Inr (True, sc')" for sc'
    using that Scroll_keyStroke_hidden [of sc k] by auto
  show ?thesis
    using 1 2 Lookup_keyStroke_idle Scroll_keyStroke_hidden by blast
qed

text \<open>
  C3 as stated fails for a lookup that is not visible: taking the default keystrokes with
  no menu on top, it handles the key 65 and appends it to its input.
\<close>

theorem hidden_lookup_handles:
  "Lookup_keyStroke id (KeyCode 65) plain_key hidden_lookup
     = Inr (RTrue, hidden_lookup\<lparr>inputValue := [65], effects := [AcceptText [65], OpenMenu]\<rparr>)
   \<and> \<not> shown hidden_lookup"
  by code_simp

theorem keyStroke_only_when_eligible_witness:
  "Lookup_keyStroke id (KeyCode 65) plain_key hidden_lookup
     = Inr (RTrue, hidden_lookup\<lparr>inputValue := [65], effects := [AcceptText [65], OpenMenu]\<rparr>)
   \<and> truthy RTrue
   \<and> (keystrokeDefault hidden_lookup \<and> \<not> hasTopMenu hidden_lookup)
   \<and> \<not> (focusedInput (hidden_lookup\<lparr>hasTopMenu := True\<rparr>) \<or> chainActive (hidden_lookup\<lparr>hasTopMenu := True\<rparr>)
          \<or> (keystrokeDefault (hidden_lookup\<lparr>hasTopMenu := True\<rparr>) \<and> \<not> hasTopMenu (hidden_lookup\<lparr>hasTopMenu := True\<rparr>)))
   \<and> Lookup_keyStroke id (KeyCode 65) plain_key (hidden_lookup\<lparr>hasTopMenu := True\<rparr>)
       = Inr (Undefined, hidden_lookup\<lparr>hasTopMenu := True\<rparr>)
   \<and> Scroll_keyStroke (KeyName ''down'') two_items
       = Inr (True, two_items\<lparr>items := focus_at (map (\<lambda>it. it\<lparr>cq_focused := False\<rparr>) (items two_items)) 1\<rparr>)
   \<and> trulyvisible two_items
   \<and> \<not> trulyvisible (two_items\<lparr>trulyvisible := False\<rparr>)
   \<and> Scroll_keyStroke (KeyName ''down'') (two_items\<lparr>trulyvisible := False\<rparr>)
       = Inr (False, two_items\<lparr>trulyvisible := False\<rparr>)"
proof -
  have a: "Lookup_keyStroke id (KeyCode 65) plain_key hidden_lookup
     = Inr (RTrue, hidden_lookup\<lparr>inputValue := [65], effects := [AcceptText [65], OpenMenu]\<rparr>)"
    by code_simp
  have b: "truthy RTrue" by (simp add: truthy_def)
  have c: "Scroll_keyStroke (KeyName ''down'') two_items
       = Inr (True, two_items\<lparr>items := focus_at (map (\<lambda>it. it\<lparr>cq_focused := False\<rparr>) (items two_items)) 1\<rparr>)"
    by code_simp
  have d: "\<not> (focusedInput (hidden_lookup\<lparr>hasTopMenu := True\<rparr>) \<or> chainActive (hidden_lookup\<lparr>hasTopMenu := True\<rparr>)
          \<or> (keystrokeDefault (hidden_lookup\<lparr>hasTopMenu := True\<rparr>) \<and> \<not> hasTopMenu (hidden_lookup\<lparr>hasTopMenu := True\<rparr>)))"
    by (simp add: hidden_lookup_def)
  have e: "\<not> trulyvisible (two_items\<lparr>trulyvisible := False\<rparr>)" by simp
  have f: "Lookup_keyStroke id (KeyCode 65) plain_key (hidden_lookup\<lparr>hasTopMenu := True\<rparr>)
       = Inr (Undefined, hidden_lookup\<lparr>hasTopMenu := True\<rparr>)"
    by code_simp
  note t1 = keyStroke_only_when_eligible [of id "KeyCode 65" plain_key hidden_lookup
      "KeyName ''down''" two_items]
  note t2 = keyStroke_only_when_eligible [of id "KeyCode 65" plain_key
      "hidden_lookup\<lparr>hasTopMenu := True\<rparr>" "KeyName ''down''" "two_items\<lparr>trulyvisible := False\<rparr>"]
  from t1 a b c have g: "(keystrokeDefault hidden_lookup \<and> \<not> hasTopMenu hidden_lookup)
     \<and> trulyvisible two_items"
    by (simp add: hidden_lookup_def two_items_def)
  from t2 d e have h: "Scroll_keyStroke (KeyName ''down'') (two_items\<lparr>trulyvisible := False\<rparr>)
       = Inr (False, two_items\<lparr>trulyvisible := False\<rparr>)"
    by blast
  show ?thesis
    using a b c d e f g h by blast
qed

end
